theory Spec2Isabelle
  imports Complex_Main
begin

section \<open>Data model of the block event layer\<close>

text \<open>
  The module \<open>src/components/modules/blockEvents.ts\<close> is glue: every handler reads
  getters of its collaborators (block manager, caret, selection, toolbars, the window)
  and calls their methods. The collaborators themselves are not part of the file, so
  \<^item> each getter the handlers read is a field of the record \<open>editor\<close>;
  \<^item> each method the handlers call is a constructor of \<open>call\<close>, with the arguments
    the source passes;
  \<^item> what a method does to the getters, and what it returns, is the parameter
    \<open>exec\<close> of the environment: any function is allowed there.
  A handler is then a function from the world (the editor's observable state and the
  trace of calls made so far) to an outcome and the new world.
\<close>

text \<open>
  The members of \<open>_.keyCodes\<close> the module names, as distinct keys; any other key code
  is \<open>OTHER\<close>. The \<open>switch\<close> of \<open>keydown\<close> is a case distinction on this type.
\<close>

datatype key = BACKSPACE | TAB | ENTER | LEFT | UP | RIGHT | DOWN | OTHER nat

record event =
  keyCode :: key
  shiftKey :: bool
  metaKey :: bool
  ctrlKey :: bool
  altKey :: bool
  target :: nat

text \<open>The capability flags of a block's tool that the module reads.\<close>

record block_tool =
  isLineBreaksEnabled :: bool
  isDefault :: bool

text \<open>
  The geometry of a block's holder element: \<open>getBoundingClientRect().top\<close>,
  \<open>getBoundingClientRect().height\<close> and \<open>offsetHeight\<close>. Pixel values are real
  numbers here; they only reach the arguments of the two scroll calls.
\<close>

record element =
  rect_top :: real
  rect_height :: real
  offsetHeight :: real

text \<open>
  A block as the module sees it. Inputs and the plugin's content node are DOM nodes,
  compared by identity: a node is a number here, and an absent one is \<open>None\<close>.
\<close>

record block =
  name :: string
  holder :: element
  pluginsContent :: nat
  tool :: block_tool
  inputs :: "nat list"
  currentInput :: "nat option"
  firstInput :: "nat option"
  isEmpty :: bool
  selected :: bool
  mergeable :: bool
  hasMedia :: bool

text \<open>\<open>Caret.positions\<close>.\<close>

datatype position = START | END | DEFAULT

text \<open>
  Every getter of \<open>this.Editor\<close> and of the window that a handler reads. A getter that
  may give \<open>undefined\<close> has an option type.
\<close>

record editor =
  BlockManager_currentBlock :: "block option"
  BlockManager_previousBlock :: "block option"
  BlockManager_currentBlockIndex :: int
  BlockManager_blocks :: "block list"
  BlockManager_getBlockByChildNode :: "nat \<Rightarrow> block option"
  BlocksAPI_getCurrentBlockIndex :: int
  BlocksAPI_getBlockByIndex :: "int \<Rightarrow> block option"
  Caret_isAtStart :: bool
  Caret_isAtEnd :: bool
  SelectionUtils_isCollapsed :: bool
  BlockSelection_anyBlockSelected :: bool
  Toolbar_opened :: bool
  Toolbox_opened :: bool
  BlockSettings_opened :: bool
  InlineToolbar_opened :: bool
  ConversionToolbar_opened :: bool
  UI_someToolbarOpened :: bool
  UI_someFlipperButtonFocused :: bool
  window_innerHeight :: real
  window_scrollY :: real

text \<open>
  The calls a handler makes, with their arguments. An omitted optional argument is
  \<open>None\<close>. \<open>Utils_delay_updateCurrentInput ms\<close> is the deferred refresh
  \<open>_.delay(() => { if (currentBlock) currentBlock.updateCurrentInput() }, ms)()\<close>.
\<close>

datatype call =
    Event_preventDefault
  | Toolbar_close
  | Toolbar_moveAndOpen "block option"
  | Toolbox_open
  | BlockSettings_open
  | ConversionToolbar_close
  | UI_checkEmptiness
  | UI_closeAllToolbars
  | BlockManager_clearFocused
  | BlockManager_removeBlock "int option"
  | BlockManager_removeSelectedBlocks
  | BlockManager_insertDefaultBlockAtIndex int "bool option" "string option"
  | BlockManager_split string
  | BlockManager_mergeBlocks block block
  | BlockSelection_clearSelection
  | BlockSelection_copySelectedBlocks
  | Caret_setToBlock "block option" "position option"
  | Caret_navigateNext
  | Caret_navigatePrevious
  | Caret_createShadow nat
  | Caret_restoreCaret nat
  | CrossBlockSelection_toggleBlockSelectedState "bool option"
  | BlocksAPI_move int
  | Window_scrollTo real real
  | Window_scrollBy real real
  | Node_normalize nat
  | Block_set_dropTarget block bool
  | Block_set_focused block bool
  | Utils_delay_updateCurrentInput nat

text \<open>
  What a call gives back: nothing, a block, a boolean or an index. For the two calls
  that return a promise (\<open>copySelectedBlocks\<close>, \<open>BlockManager.mergeBlocks\<close>) the
  boolean says whether the promise is fulfilled; the \<open>then\<close> callback runs only then.
\<close>

datatype retval = RVoid | RBlock "block option" | RBool bool | RIndex int

fun the_block :: "retval \<Rightarrow> block option" where
  "the_block (RBlock b) = b"
| "the_block _ = None"

fun the_bool :: "retval \<Rightarrow> bool" where
  "the_bool (RBool b) = b"
| "the_bool _ = False"

fun the_index :: "retval \<Rightarrow> int" where
  "the_index (RIndex i) = i"
| "the_index _ = 0"

text \<open>
  The environment: the collaborators' behaviour \<open>exec\<close>, and the members of the absent
  modules that the handlers read and that no call changes: \<open>_.isPrintableKey\<close>,
  \<open>Flipper.usedKeys\<close>, \<open>this.config.defaultBlock\<close> and \<open>this.isRtl\<close>.
\<close>

record env =
  exec :: "call \<Rightarrow> editor \<Rightarrow> retval \<times> editor"
  isPrintableKey :: "key \<Rightarrow> bool"
  Flipper_usedKeys :: "key list"
  config_defaultBlock :: string
  isRtl :: bool

record world =
  ed :: editor
  trace :: "call list"

datatype error = Error string | TypeError

datatype outcome = Returned | Threw error

text \<open>Making a call: the value it returns, and the world after it.\<close>

definition result :: "env \<Rightarrow> call \<Rightarrow> world \<Rightarrow> retval" where
  "result X c w = fst (exec X c (ed w))"

definition invoke :: "env \<Rightarrow> call \<Rightarrow> world \<Rightarrow> world" where
  "invoke X c w = \<lparr>ed = snd (exec X c (ed w)), trace = trace w @ [c]\<rparr>"

text \<open>Making a list of calls one after the other.\<close>

fun invokes :: "env \<Rightarrow> call list \<Rightarrow> world \<Rightarrow> world" where
  "invokes X [] w = w"
| "invokes X (c # cs) w = invokes X cs (invoke X c w)"

text \<open>Reading a JavaScript array at an index: \<open>undefined\<close> outside the array.\<close>

definition js_index :: "'a list \<Rightarrow> int \<Rightarrow> 'a option" where
  "js_index xs i = (if 0 \<le> i \<and> i < int (length xs) then Some (xs ! nat i) else None)"

definition DEFAULT_TYPE_ACCEPT :: "string list" where
  "DEFAULT_TYPE_ACCEPT =
     [''paragraph'', ''list'', ''header'', ''header01'', ''header02'', ''header03'']"

section \<open>The handlers\<close>

subsection \<open>Before every keydown\<close>

definition needToolbarClosing :: "event \<Rightarrow> editor \<Rightarrow> bool" where
  "needToolbarClosing ev e =
     (let toolboxItemSelected = (keyCode ev = ENTER \<and> Toolbox_opened e);
          blockSettingsItemSelected = (keyCode ev = ENTER \<and> BlockSettings_opened e);
          inlineToolbarItemSelected = (keyCode ev = ENTER \<and> InlineToolbar_opened e);
          conversionToolbarItemSelected = (keyCode ev = ENTER \<and> ConversionToolbar_opened e);
          flippingToolbarItems = (keyCode ev = TAB)
      in \<not> (shiftKey ev \<or> flippingToolbarItems \<or> toolboxItemSelected \<or>
            blockSettingsItemSelected \<or> inlineToolbarItemSelected \<or>
            conversionToolbarItemSelected))"

definition beforeKeydownProcessing :: "env \<Rightarrow> event \<Rightarrow> world \<Rightarrow> world" where
  "beforeKeydownProcessing X ev w =
     (if \<not> needToolbarClosing ev (ed w) then w
      else if isPrintableKey X (keyCode ev) then
        (let w1 = invoke X Toolbar_close w;
             w2 = invoke X ConversionToolbar_close w1;
             isShortcut = (ctrlKey ev \<or> metaKey ev \<or> altKey ev \<or> shiftKey ev)
         in if \<not> isShortcut
            then invoke X BlockSelection_clearSelection (invoke X BlockManager_clearFocused w2)
            else w2)
      else w)"


subsection \<open>Key up\<close>

definition keyup :: "env \<Rightarrow> event \<Rightarrow> world \<Rightarrow> world" where
  "keyup X ev w = (if shiftKey ev then w else invoke X UI_checkEmptiness w)"

subsection \<open>Tab\<close>

definition activateToolbox :: "env \<Rightarrow> world \<Rightarrow> world" where
  "activateToolbox X w =
     (let w1 = (if \<not> Toolbar_opened (ed w) then invoke X (Toolbar_moveAndOpen None) w else w)
      in invoke X Toolbox_open w1)"

text \<open>
  \<open>this.Editor.BlockManager.currentBlock.focused = true\<close> is a write through the getter:
  with no current block it is a \<open>TypeError\<close>.
\<close>

definition activateBlockSettings :: "env \<Rightarrow> world \<Rightarrow> outcome \<times> world" where
  "activateBlockSettings X w =
     (if \<not> Toolbar_opened (ed w) then
        (case BlockManager_currentBlock (ed w) of
           None \<Rightarrow> (Threw TypeError, w)
         | Some cb \<Rightarrow>
             (let w1 = invoke X (Block_set_focused cb True) w;
                  w2 = invoke X (Toolbar_moveAndOpen None) w1
              in (Returned,
                  if \<not> BlockSettings_opened (ed w2) then invoke X BlockSettings_open w2 else w2)))
      else (Returned,
            if \<not> BlockSettings_opened (ed w) then invoke X BlockSettings_open w else w))"

definition tabPressed :: "env \<Rightarrow> event \<Rightarrow> world \<Rightarrow> outcome \<times> world" where
  "tabPressed X ev w =
     (let w1 = invoke X Event_preventDefault w;
          w2 = invoke X BlockSelection_clearSelection w1
      in case BlockManager_currentBlock (ed w2) of
           None \<Rightarrow> (Returned, w2)
         | Some currentBlock \<Rightarrow>
             (let isEmptyBlock = isEmpty currentBlock;
                  canOpenToolbox = (isDefault (tool currentBlock) \<and> isEmptyBlock);
                  conversionToolbarOpened = (\<not> isEmptyBlock \<and> ConversionToolbar_opened (ed w2));
                  inlineToolbarOpened =
                    (\<not> isEmptyBlock \<and> \<not> SelectionUtils_isCollapsed (ed w2) \<and>
                     InlineToolbar_opened (ed w2));
                  canOpenBlockTunes = (\<not> conversionToolbarOpened \<and> \<not> inlineToolbarOpened)
              in if canOpenToolbox then (Returned, activateToolbox X w2)
                 else if canOpenBlockTunes then activateBlockSettings X w2
                 else (Returned, w2)))"

subsection \<open>Drag over and drag leave\<close>

text \<open>
  \<open>block.dropTarget = ...\<close> on the lookup's result: a \<open>TypeError\<close> when the lookup
  gives no block.
\<close>

definition dragOver :: "env \<Rightarrow> event \<Rightarrow> world \<Rightarrow> outcome \<times> world" where
  "dragOver X ev w =
     (case BlockManager_getBlockByChildNode (ed w) (target ev) of
        None \<Rightarrow> (Threw TypeError, w)
      | Some b \<Rightarrow> (Returned, invoke X (Block_set_dropTarget b True) w))"

definition dragLeave :: "env \<Rightarrow> event \<Rightarrow> world \<Rightarrow> outcome \<times> world" where
  "dragLeave X ev w =
     (case BlockManager_getBlockByChildNode (ed w) (target ev) of
        None \<Rightarrow> (Threw TypeError, w)
      | Some b \<Rightarrow> (Returned, invoke X (Block_set_dropTarget b False) w))"

subsection \<open>Copy and cut\<close>

definition handleCommandC :: "env \<Rightarrow> world \<Rightarrow> world" where
  "handleCommandC X w =
     (if \<not> BlockSelection_anyBlockSelected (ed w) then w
      else invoke X BlockSelection_copySelectedBlocks w)"

definition handleCommandX :: "env \<Rightarrow> world \<Rightarrow> world" where
  "handleCommandX X w =
     (if \<not> BlockSelection_anyBlockSelected (ed w) then w
      else
        (let fulfilled = the_bool (result X BlockSelection_copySelectedBlocks w);
             w1 = invoke X BlockSelection_copySelectedBlocks w
         in if fulfilled then
              (let selectionPositionIndex =
                     the_index (result X BlockManager_removeSelectedBlocks w1);
                   w2 = invoke X BlockManager_removeSelectedBlocks w1;
                   ins = BlockManager_insertDefaultBlockAtIndex
                           selectionPositionIndex (Some True) None;
                   insertedBlock = the_block (result X ins w2);
                   w3 = invoke X ins w2;
                   w4 = invoke X (Caret_setToBlock insertedBlock (Some START)) w3
               in invoke X BlockSelection_clearSelection w4)
            else w1))"

subsection \<open>Enter\<close>

definition enter :: "env \<Rightarrow> event \<Rightarrow> world \<Rightarrow> outcome \<times> world" where
  "enter X ev w =
     (case BlockManager_currentBlock (ed w) of
        None \<Rightarrow> (Threw TypeError, w)
      | Some currentBlock \<Rightarrow>
          if isLineBreaksEnabled (tool currentBlock) then (Returned, w)
          else if UI_someToolbarOpened (ed w) \<and> UI_someFlipperButtonFocused (ed w)
          then (Returned, w)
          else if shiftKey ev then (Returned, w)
          else
            (let index = BlockManager_currentBlockIndex (ed w);
                 split_or_insert =
                   (if Caret_isAtStart (ed w) \<and> \<not> hasMedia currentBlock then
                      (if name currentBlock = ''list'' then
                         (let ins = BlockManager_insertDefaultBlockAtIndex
                                      index (Some False) (Some (config_defaultBlock X))
                          in Inr (the_block (result X ins w), invoke X ins w))
                       else
                         (let ins = BlockManager_insertDefaultBlockAtIndex index None None
                          in Inr (Some currentBlock, invoke X ins w)))
                    else if Caret_isAtEnd (ed w) then
                      (if name currentBlock = ''list'' then
                         (let ins = BlockManager_insertDefaultBlockAtIndex
                                      (index + 1) (Some False) (Some ''list'')
                          in Inr (the_block (result X ins w), invoke X ins w))
                       else
                         (let ins = BlockManager_insertDefaultBlockAtIndex (index + 1) None None
                          in Inr (the_block (result X ins w), invoke X ins w)))
                    else
                      (case js_index (BlockManager_blocks (ed w)) index of
                         None \<Rightarrow> Inl TypeError
                       | Some b \<Rightarrow>
                           (let newBlockType = name b;
                                sp = BlockManager_split
                                       (if newBlockType \<in> set DEFAULT_TYPE_ACCEPT
                                        then newBlockType else ''paragraph'')
                            in Inr (the_block (result X sp w), invoke X sp w))))
             in case split_or_insert of
                  Inl e \<Rightarrow> (Threw e, w)
                | Inr (newCurrent, w1) \<Rightarrow>
                    (let w2 = invoke X (Caret_setToBlock newCurrent None) w1;
                         w3 = invoke X (Toolbar_moveAndOpen newCurrent) w2
                     in (Returned, invoke X Event_preventDefault w3))))"

subsection \<open>Backspace and merging\<close>

definition mergeBlocks :: "env \<Rightarrow> world \<Rightarrow> outcome \<times> world" where
  "mergeBlocks X w =
     (case BlockManager_currentBlock (ed w) of
        None \<Rightarrow> (Threw TypeError, w)
      | Some blockToMerge \<Rightarrow>
     (case BlockManager_previousBlock (ed w) of
        None \<Rightarrow> (Threw TypeError, w)
      | Some targetBlock \<Rightarrow>
          if name blockToMerge \<noteq> name targetBlock \<or> \<not> mergeable targetBlock then
            (if inputs targetBlock = [] \<or> isEmpty targetBlock then
               (let w1 = invoke X (BlockManager_removeBlock
                                     (Some (BlockManager_currentBlockIndex (ed w) - 1))) w;
                    w2 = invoke X (Caret_setToBlock (BlockManager_currentBlock (ed w1)) None) w1
                in (Returned, invoke X Toolbar_close w2))
             else
               (let navigated = the_bool (result X Caret_navigatePrevious w);
                    w1 = invoke X Caret_navigatePrevious w
                in (Returned, if navigated then invoke X Toolbar_close w1 else w1)))
          else
            (let w1 = invoke X (Caret_createShadow (pluginsContent targetBlock)) w;
                 mrg = BlockManager_mergeBlocks targetBlock blockToMerge;
                 fulfilled = the_bool (result X mrg w1);
                 w2 = invoke X mrg w1
             in (Returned,
                 if fulfilled then
                   invokes X [Caret_restoreCaret (pluginsContent targetBlock),
                              Node_normalize (pluginsContent targetBlock),
                              Toolbar_close] w2
                 else w2))))"

definition backspace :: "env \<Rightarrow> event \<Rightarrow> world \<Rightarrow> outcome \<times> world" where
  "backspace X ev w =
     (case BlockManager_currentBlock (ed w) of
        None \<Rightarrow> (Threw TypeError, w)
      | Some currentBlock \<Rightarrow>
          if selected currentBlock \<or>
             (isEmpty currentBlock \<and> currentInput currentBlock = firstInput currentBlock)
          then
            (let w1 = invoke X Event_preventDefault w;
                 index = BlockManager_currentBlockIndex (ed w1);
                 w2 = (case BlockManager_previousBlock (ed w1) of
                         None \<Rightarrow> invoke X (BlockManager_removeBlock None) w1
                       | Some previousBlock \<Rightarrow>
                           if inputs previousBlock = [] \<and>
                              (name previousBlock = ''image'' \<or> name previousBlock = ''gallery'')
                           then invoke X (BlockManager_removeBlock (Some (index - 1))) w1
                           else invoke X (BlockManager_removeBlock None) w1);
                 w3 = invoke X (Caret_setToBlock (BlockManager_currentBlock (ed w2))
                                  (Some (if index \<noteq> 0 then END else START))) w2;
                 w4 = invoke X Toolbar_close w3
             in (Returned, invoke X BlockSelection_clearSelection w4))
          else if isLineBreaksEnabled (tool currentBlock) \<and> \<not> Caret_isAtStart (ed w)
          then (Returned, w)
          else
            (let isFirstBlock = (BlockManager_currentBlockIndex (ed w) = 0);
                 canMergeBlocks =
                   (Caret_isAtStart (ed w) \<and> SelectionUtils_isCollapsed (ed w) \<and>
                    currentInput currentBlock = firstInput currentBlock \<and> \<not> isFirstBlock)
             in if canMergeBlocks then mergeBlocks X (invoke X Event_preventDefault w)
                else (Returned, w)))"

subsection \<open>Arrows\<close>

definition arrowRightAndDown :: "env \<Rightarrow> event \<Rightarrow> world \<Rightarrow> world" where
  "arrowRightAndDown X ev w =
     (let isFlipperCombination =
            (keyCode ev \<in> set (Flipper_usedKeys X) \<and> (\<not> shiftKey ev \<or> keyCode ev = TAB))
      in if UI_someToolbarOpened (ed w) \<and> isFlipperCombination then w
         else
           (let w1 = invoke X BlockManager_clearFocused w;
                w2 = invoke X Toolbar_close w1;
                shouldEnableCBS =
                  (Caret_isAtEnd (ed w2) \<or> BlockSelection_anyBlockSelected (ed w2))
            in if shiftKey ev \<and> keyCode ev = DOWN \<and> shouldEnableCBS
               then invoke X (CrossBlockSelection_toggleBlockSelectedState None) w2
               else
                 (let navigateNext =
                        (keyCode ev = DOWN \<or> (keyCode ev = RIGHT \<and> \<not> isRtl X));
                      nav = (if navigateNext then Caret_navigateNext else Caret_navigatePrevious);
                      isNavigated = the_bool (result X nav w2);
                      w3 = invoke X nav w2;
                      w4 = (if isNavigated then invoke X Event_preventDefault w3
                            else invoke X (Utils_delay_updateCurrentInput 20) w3)
                  in invoke X BlockSelection_clearSelection w4)))"

definition arrowLeftAndUp :: "env \<Rightarrow> event \<Rightarrow> world \<Rightarrow> world" where
  "arrowLeftAndUp X ev w =
     (if UI_someToolbarOpened (ed w) \<and>
         keyCode ev \<in> set (Flipper_usedKeys X) \<and> (\<not> shiftKey ev \<or> keyCode ev = TAB)
      then w
      else
        (let w0 = (if UI_someToolbarOpened (ed w) then invoke X UI_closeAllToolbars w else w);
             w1 = invoke X BlockManager_clearFocused w0;
             w2 = invoke X Toolbar_close w1;
             shouldEnableCBS =
               (Caret_isAtStart (ed w2) \<or> BlockSelection_anyBlockSelected (ed w2))
         in if shiftKey ev \<and> keyCode ev = UP \<and> shouldEnableCBS
            then invoke X (CrossBlockSelection_toggleBlockSelectedState (Some False)) w2
            else
              (let navigatePrevious =
                     (keyCode ev = UP \<or> (keyCode ev = LEFT \<and> \<not> isRtl X));
                   nav = (if navigatePrevious then Caret_navigatePrevious else Caret_navigateNext);
                   isNavigated = the_bool (result X nav w2);
                   w3 = invoke X nav w2;
                   w4 = (if isNavigated then invoke X Event_preventDefault w3
                         else invoke X (Utils_delay_updateCurrentInput 20) w3)
               in invoke X BlockSelection_clearSelection w4)))"

subsection \<open>Key down\<close>

text \<open>
  The body of \<open>case _.keyCodes.DOWN\<close> before control reaches \<open>case _.keyCodes.RIGHT\<close>,
  and the body of \<open>case _.keyCodes.UP\<close> before control reaches \<open>case _.keyCodes.LEFT\<close>.
  Reading \<open>currentBlock.name\<close> with no block at the current index is a
  \<open>TypeError\<close>; the test \<open>!currentBlock\<close> of the UP case comes after that read and
  can no longer hold.
\<close>

definition keydown_case_DOWN :: "env \<Rightarrow> event \<Rightarrow> world \<Rightarrow> outcome \<times> world" where
  "keydown_case_DOWN X ev w =
     (if shiftKey ev \<and> metaKey ev then
        (let currentBlockIndex = BlocksAPI_getCurrentBlockIndex (ed w)
         in case BlocksAPI_getBlockByIndex (ed w) currentBlockIndex of
              None \<Rightarrow> (Threw TypeError, w)
            | Some currentBlock \<Rightarrow>
                if name currentBlock = ''image'' then
                  (case BlocksAPI_getBlockByIndex (ed w) (currentBlockIndex + 1) of
                     None \<Rightarrow>
                       (Threw (Error ''Unable to move Block down since it is already the last''), w)
                   | Some nextBlock \<Rightarrow>
                       (let nextBlockElement = holder nextBlock;
                            scrollOffset0 =
                              \<bar>window_innerHeight (ed w) - offsetHeight nextBlockElement\<bar>;
                            scrollOffset =
                              (if rect_top nextBlockElement < window_innerHeight (ed w)
                               then window_scrollY (ed w) + offsetHeight nextBlockElement
                               else scrollOffset0);
                            w1 = invoke X (Window_scrollTo 0 scrollOffset) w
                        in (Returned, invoke X (BlocksAPI_move (currentBlockIndex + 1)) w1)))
                else (Returned, w))
      else (Returned, w))"

definition keydown_case_UP :: "env \<Rightarrow> event \<Rightarrow> world \<Rightarrow> outcome \<times> world" where
  "keydown_case_UP X ev w =
     (if shiftKey ev \<and> metaKey ev then
        (let currentBlockIndex = BlocksAPI_getCurrentBlockIndex (ed w)
         in case BlocksAPI_getBlockByIndex (ed w) currentBlockIndex of
              None \<Rightarrow> (Threw TypeError, w)
            | Some currentBlock \<Rightarrow>
                if name currentBlock = ''image'' then
                  (if currentBlockIndex = 0 then
                     (Threw (Error ''Unable to move Block up since it is already the first''), w)
                   else
                     (case BlocksAPI_getBlockByIndex (ed w) (currentBlockIndex - 1) of
                        None \<Rightarrow>
                          (Threw (Error ''Unable to move Block up since it is already the first''), w)
                      | Some previousBlock \<Rightarrow>
                          (let currentBlockCoords = holder currentBlock;
                               previousBlockCoords = holder previousBlock;
                               scrollUpOffset =
                                 (if rect_top previousBlockCoords > 0
                                  then \<bar>rect_top currentBlockCoords\<bar> - \<bar>rect_top previousBlockCoords\<bar>
                                  else \<bar>rect_top currentBlockCoords\<bar> + rect_height previousBlockCoords);
                               w1 = invoke X (Window_scrollBy 0 (- 1 * scrollUpOffset)) w
                           in (Returned, invoke X (BlocksAPI_move (currentBlockIndex - 1)) w1))))
                else (Returned, w))
      else (Returned, w))"

definition keydown :: "env \<Rightarrow> event \<Rightarrow> world \<Rightarrow> outcome \<times> world" where
  "keydown X ev w =
     (let w0 = beforeKeydownProcessing X ev w
      in case keyCode ev of
           BACKSPACE \<Rightarrow> backspace X ev w0
         | ENTER \<Rightarrow> enter X ev w0
         | DOWN \<Rightarrow>
             (case keydown_case_DOWN X ev w0 of
                (Threw e, w1) \<Rightarrow> (Threw e, w1)
              | (Returned, w1) \<Rightarrow> (Returned, arrowRightAndDown X ev w1))
         | RIGHT \<Rightarrow> (Returned, arrowRightAndDown X ev w0)
         | UP \<Rightarrow>
             (case keydown_case_UP X ev w0 of
                (Threw e, w1) \<Rightarrow> (Threw e, w1)
              | (Returned, w1) \<Rightarrow> (Returned, arrowLeftAndUp X ev w1))
         | LEFT \<Rightarrow> (Returned, arrowLeftAndUp X ev w0)
         | TAB \<Rightarrow> tabPressed X ev w0
         | OTHER n \<Rightarrow> (Returned, w0))"

section \<open>A sample editor\<close>

text \<open>
  A concrete environment and concrete worlds, on which the theorems below are
  instantiated: collaborators that leave the getters as they are and return a fresh
  block, an index or a boolean; the sample world has two blocks, a paragraph and then a
  list, the list being current.
\<close>

definition sample_block :: "string \<Rightarrow> block" where
  "sample_block n =
     \<lparr>name = n, holder = \<lparr>rect_top = 100, rect_height = 50, offsetHeight = 50\<rparr>,
      pluginsContent = 7,
      tool = \<lparr>isLineBreaksEnabled = False, isDefault = (n = ''paragraph'')\<rparr>,
      inputs = [1], currentInput = Some 1, firstInput = Some 1,
      isEmpty = False, selected = False, mergeable = True, hasMedia = False\<rparr>"

fun sample_exec :: "call \<Rightarrow> editor \<Rightarrow> retval \<times> editor" where
  "sample_exec (BlockManager_insertDefaultBlockAtIndex i f t) e =
     (RBlock (Some (sample_block (case t of None \<Rightarrow> ''paragraph'' | Some n \<Rightarrow> n))), e)"
| "sample_exec (BlockManager_split t) e = (RBlock (Some (sample_block t)), e)"
| "sample_exec BlockSelection_copySelectedBlocks e = (RBool True, e)"
| "sample_exec (BlockManager_mergeBlocks a b) e = (RBool True, e)"
| "sample_exec BlockManager_removeSelectedBlocks e = (RIndex 1, e)"
| "sample_exec Caret_navigateNext e = (RBool False, e)"
| "sample_exec Caret_navigatePrevious e = (RBool True, e)"
| "sample_exec c e = (RVoid, e)"

fun sample_isPrintableKey :: "key \<Rightarrow> bool" where
  "sample_isPrintableKey ENTER = True"
| "sample_isPrintableKey (OTHER n) = ((47 < n \<and> n < 58) \<or> n = 32 \<or> (64 < n \<and> n < 91))"
| "sample_isPrintableKey k = False"

text \<open>The same collaborators, except that the promise of the copy is rejected.\<close>

fun rejecting_exec :: "call \<Rightarrow> editor \<Rightarrow> retval \<times> editor" where
  "rejecting_exec BlockSelection_copySelectedBlocks e = (RBool False, e)"
| "rejecting_exec c e = sample_exec c e"

definition sample_env :: env where
  "sample_env =
     \<lparr>exec = sample_exec, isPrintableKey = sample_isPrintableKey,
      Flipper_usedKeys = [TAB, LEFT, RIGHT, ENTER, UP, DOWN],
      config_defaultBlock = ''paragraph'', isRtl = False\<rparr>"

text \<open>
  The editor over a list of blocks with the block at index \<open>i\<close> current: every getter
  reads the same list, the caret is at the start of the block, nothing is selected and
  no toolbar is open.
\<close>

definition editor_of :: "block list \<Rightarrow> int \<Rightarrow> editor" where
  "editor_of bs i =
     \<lparr>BlockManager_currentBlock = js_index bs i,
      BlockManager_previousBlock = js_index bs (i - 1),
      BlockManager_currentBlockIndex = i,
      BlockManager_blocks = bs,
      BlockManager_getBlockByChildNode = (\<lambda>n. js_index bs (int n)),
      BlocksAPI_getCurrentBlockIndex = i,
      BlocksAPI_getBlockByIndex = js_index bs,
      Caret_isAtStart = True, Caret_isAtEnd = False,
      SelectionUtils_isCollapsed = True, BlockSelection_anyBlockSelected = False,
      Toolbar_opened = False, Toolbox_opened = False, BlockSettings_opened = False,
      InlineToolbar_opened = False, ConversionToolbar_opened = False,
      UI_someToolbarOpened = False, UI_someFlipperButtonFocused = False,
      window_innerHeight = 800, window_scrollY = 0\<rparr>"

definition rejecting_env :: env where
  "rejecting_env = sample_env\<lparr>exec := rejecting_exec\<rparr>"

definition world_of :: "editor \<Rightarrow> world" where
  "world_of e = \<lparr>ed = e, trace = []\<rparr>"

definition sample_editor :: editor where
  "sample_editor = editor_of [sample_block ''paragraph'', sample_block ''list''] 1"

definition sample_world :: world where
  "sample_world = world_of sample_editor"

definition key_event :: "key \<Rightarrow> event" where
  "key_event k =
     \<lparr>keyCode = k, shiftKey = False, metaKey = False, ctrlKey = False, altKey = False,
      target = 1\<rparr>"

section \<open>Calls and traces\<close>

lemma trace_invoke: "trace (invoke X c w) = trace w @ [c]"
  by (simp add: invoke_def)

lemma trace_invokes: "trace (invokes X cs w) = trace w @ cs"
  by (induction cs arbitrary: w) (simp_all add: trace_invoke)

lemmas sample_defs =
  sample_env_def key_event_def sample_world_def sample_editor_def editor_of_def
  world_of_def sample_block_def js_index_def invoke_def result_def
  beforeKeydownProcessing_def needToolbarClosing_def Let_def rejecting_env_def

lemma beforeKeydownProcessing_shift:
  "shiftKey ev \<Longrightarrow> beforeKeydownProcessing X ev w = w"
  by (simp add: beforeKeydownProcessing_def needToolbarClosing_def)

lemma beforeKeydownProcessing_TAB:
  "keyCode ev = TAB \<Longrightarrow> beforeKeydownProcessing X ev w = w"
  by (simp add: beforeKeydownProcessing_def needToolbarClosing_def)

section \<open>The pre-processing of a keydown\<close>

text \<open>
  Claim C5. The pre-processing step of a keydown closes the toolbar and the conversion
  toolbar and clears the block focus and the block selection, in this order, when the
  key is printable and none of ctrl, meta, alt and shift is held; the exceptions are the
  ones the claim names: on Tab, and on Enter while the toolbox, the block settings, the
  inline toolbar or the conversion toolbar is open, the step makes no call at all and
  leaves the world as it is.
\<close>

theorem beforeKeydownProcessing_closing:
  "(isPrintableKey X (keyCode ev) \<and> \<not> ctrlKey ev \<and> \<not> metaKey ev \<and> \<not> altKey ev \<and> \<not> shiftKey ev \<and>
    keyCode ev \<noteq> TAB \<and>
    \<not> (keyCode ev = ENTER \<and>
       (Toolbox_opened (ed w) \<or> BlockSettings_opened (ed w) \<or>
        InlineToolbar_opened (ed w) \<or> ConversionToolbar_opened (ed w)))
    \<longrightarrow> beforeKeydownProcessing X ev w =
        invokes X [Toolbar_close, ConversionToolbar_close,
                   BlockManager_clearFocused, BlockSelection_clearSelection] w)
   \<and> (keyCode ev = TAB \<or>
      (keyCode ev = ENTER \<and>
       (Toolbox_opened (ed w) \<or> BlockSettings_opened (ed w) \<or>
        InlineToolbar_opened (ed w) \<or> ConversionToolbar_opened (ed w)))
      \<longrightarrow> beforeKeydownProcessing X ev w = w)"
  by (auto simp add: beforeKeydownProcessing_def needToolbarClosing_def Let_def)

theorem beforeKeydownProcessing_closing_witness:
  "trace (beforeKeydownProcessing sample_env (key_event (OTHER 65)) sample_world) =
     [Toolbar_close, ConversionToolbar_close, BlockManager_clearFocused,
      BlockSelection_clearSelection]
   \<and> beforeKeydownProcessing sample_env (key_event TAB) sample_world = sample_world
   \<and> beforeKeydownProcessing sample_env (key_event ENTER)
       (world_of (sample_editor\<lparr>Toolbox_opened := True\<rparr>)) =
       world_of (sample_editor\<lparr>Toolbox_opened := True\<rparr>)"
  using beforeKeydownProcessing_closing
      [where X = sample_env and ev = "key_event (OTHER 65)" and w = sample_world]
    beforeKeydownProcessing_closing
      [where X = sample_env and ev = "key_event TAB" and w = sample_world]
    beforeKeydownProcessing_closing
      [where X = sample_env and ev = "key_event ENTER"
         and w = "world_of (sample_editor\<lparr>Toolbox_opened := True\<rparr>)"]
  by (simp add: sample_defs)

section \<open>Cut\<close>

text \<open>
  Claim C7, as stated, fails when the promise of the copy is rejected: the \<open>then\<close>
  callback of \<open>handleCommandX\<close> has no rejection branch. With a block selected and
  collaborators whose copy is rejected, the copy has settled and is the only call:
  nothing is removed, nothing is inserted, the caret is not moved and the selection is
  not cleared.
\<close>

theorem handleCommandX_rejected_copy_counterexample:
  "BlockSelection_anyBlockSelected
     (ed (world_of (sample_editor\<lparr>BlockSelection_anyBlockSelected := True\<rparr>)))
   \<and> the_bool (result rejecting_env BlockSelection_copySelectedBlocks
        (world_of (sample_editor\<lparr>BlockSelection_anyBlockSelected := True\<rparr>))) = False
   \<and> trace (handleCommandX rejecting_env
        (world_of (sample_editor\<lparr>BlockSelection_anyBlockSelected := True\<rparr>))) =
      [BlockSelection_copySelectedBlocks]
   \<and> BlockManager_removeSelectedBlocks \<notin>
      set (trace (handleCommandX rejecting_env
        (world_of (sample_editor\<lparr>BlockSelection_anyBlockSelected := True\<rparr>))))"
  by (simp add: sample_defs handleCommandX_def)

text \<open>
  Claim C7, amended. A cut with no block selected makes no call. With a selection, the
  handler copies the selected blocks; when the promise of the copy is fulfilled it then
  removes the selected blocks, inserts a default block (with focus) at the index the
  removal returned, puts the caret at the start of the inserted block and clears the
  selection, in this order; when the promise is not fulfilled, the copy stays the only
  call.
\<close>

theorem handleCommandX_order:
  "handleCommandX X w =
     (if \<not> BlockSelection_anyBlockSelected (ed w) then w
      else if the_bool (result X BlockSelection_copySelectedBlocks w) then
        (let w2 = invokes X [BlockSelection_copySelectedBlocks] w;
             i = the_index (result X BlockManager_removeSelectedBlocks w2);
             w3 = invokes X [BlockManager_removeSelectedBlocks] w2;
             b = the_block (result X (BlockManager_insertDefaultBlockAtIndex i (Some True) None) w3)
         in invokes X
              [BlockSelection_copySelectedBlocks, BlockManager_removeSelectedBlocks,
               BlockManager_insertDefaultBlockAtIndex i (Some True) None,
               Caret_setToBlock b (Some START), BlockSelection_clearSelection] w)
      else invokes X [BlockSelection_copySelectedBlocks] w)"
  by (simp add: handleCommandX_def Let_def)

theorem handleCommandX_order_witness:
  "handleCommandX sample_env sample_world = sample_world
   \<and> trace (handleCommandX sample_env
        (world_of (sample_editor\<lparr>BlockSelection_anyBlockSelected := True\<rparr>))) =
      [BlockSelection_copySelectedBlocks, BlockManager_removeSelectedBlocks,
       BlockManager_insertDefaultBlockAtIndex 1 (Some True) None,
       Caret_setToBlock (Some (sample_block ''paragraph'')) (Some START),
       BlockSelection_clearSelection]
   \<and> trace (handleCommandX rejecting_env
        (world_of (sample_editor\<lparr>BlockSelection_anyBlockSelected := True\<rparr>))) =
      [BlockSelection_copySelectedBlocks]"
  using handleCommandX_order [where X = sample_env and w = sample_world]
    handleCommandX_order
      [where X = sample_env
         and w = "world_of (sample_editor\<lparr>BlockSelection_anyBlockSelected := True\<rparr>)"]
    handleCommandX_order
      [where X = rejecting_env
         and w = "world_of (sample_editor\<lparr>BlockSelection_anyBlockSelected := True\<rparr>)"]
  by (simp add: sample_defs)

section \<open>Drag over and drag leave\<close>

text \<open>
  Claim C10. \<open>dragOver\<close> and \<open>dragLeave\<close> write the \<open>dropTarget\<close> flag of whatever
  \<open>BlockManager.getBlockByChildNode\<close> returns for the event's target, with no test in
  between: when the lookup gives no block both handlers fault with a \<open>TypeError\<close>
  before any call is made, and when it gives a block they set the flag (to true,
  respectively false) and return.
\<close>

theorem drag_faults_without_block:
  "(case BlockManager_getBlockByChildNode (ed w) (target ev) of
      None \<Rightarrow> dragOver X ev w = (Threw TypeError, w) \<and> dragLeave X ev w = (Threw TypeError, w)
    | Some b \<Rightarrow>
        dragOver X ev w = (Returned, invoke X (Block_set_dropTarget b True) w) \<and>
        dragLeave X ev w = (Returned, invoke X (Block_set_dropTarget b False) w))"
  by (simp add: dragOver_def dragLeave_def split: option.splits)

theorem drag_faults_without_block_witness:
  "dragOver sample_env (key_event TAB\<lparr>target := 5\<rparr>) sample_world = (Threw TypeError, sample_world)
   \<and> dragLeave sample_env (key_event TAB\<lparr>target := 5\<rparr>) sample_world = (Threw TypeError, sample_world)
   \<and> fst (dragOver sample_env (key_event TAB) sample_world) = Returned
   \<and> trace (snd (dragOver sample_env (key_event TAB) sample_world)) =
       [Block_set_dropTarget (sample_block ''list'') True]
   \<and> trace (snd (dragLeave sample_env (key_event TAB) sample_world)) =
       [Block_set_dropTarget (sample_block ''list'') False]"
  using drag_faults_without_block
      [where X = sample_env and ev = "key_event TAB\<lparr>target := 5\<rparr>" and w = sample_world]
    drag_faults_without_block [where X = sample_env and ev = "key_event TAB" and w = sample_world]
  by (simp add: sample_defs)

section \<open>Tab\<close>

text \<open>
  Claim C6. On a Tab keydown the pre-processing makes no call; the handler prevents the
  default action and clears the block selection first. With a current block after
  that, it then
  \<^item> opens the toolbox (moving and opening the toolbar before, when it is closed) if the
    block is empty and its tool is the default one;
  \<^item> opens nothing if the block is not empty and the conversion toolbar is open, or the
    inline toolbar is open with a selection that is not collapsed;
  \<^item> activates the block settings otherwise: it focuses the block and moves and opens
    the toolbar when the toolbar is closed, and calls \<open>BlockSettings.open\<close> unless the
    settings are open already.
\<close>

theorem tabPressed_panels:
  assumes "keyCode ev = TAB"
    and "BlockManager_currentBlock
           (ed (invokes X [Event_preventDefault, BlockSelection_clearSelection] w)) = Some cb"
  shows "keydown X ev w =
     (let w2 = invokes X [Event_preventDefault, BlockSelection_clearSelection] w
      in if isEmpty cb \<and> isDefault (tool cb) then
           (Returned,
            invokes X ((if Toolbar_opened (ed w2) then [] else [Toolbar_moveAndOpen None]) @
                       [Toolbox_open]) w2)
         else if \<not> isEmpty cb \<and>
                 (ConversionToolbar_opened (ed w2) \<or>
                  (InlineToolbar_opened (ed w2) \<and> \<not> SelectionUtils_isCollapsed (ed w2)))
         then (Returned, w2)
         else
           (let w3 = (if Toolbar_opened (ed w2) then w2
                      else invokes X [Block_set_focused cb True, Toolbar_moveAndOpen None] w2)
            in (Returned,
                if BlockSettings_opened (ed w3) then w3 else invoke X BlockSettings_open w3)))"
  using assms
  by (auto simp add: keydown_def beforeKeydownProcessing_TAB tabPressed_def
      activateToolbox_def activateBlockSettings_def Let_def)

theorem tabPressed_panels_witness:
  "trace (snd (keydown sample_env (key_event TAB)
      (world_of (editor_of [(sample_block ''paragraph'')\<lparr>isEmpty := True\<rparr>] 0)))) =
     [Event_preventDefault, BlockSelection_clearSelection, Toolbar_moveAndOpen None, Toolbox_open]
   \<and> trace (snd (keydown sample_env (key_event TAB)
      (world_of (sample_editor\<lparr>ConversionToolbar_opened := True\<rparr>)))) =
     [Event_preventDefault, BlockSelection_clearSelection]
   \<and> trace (snd (keydown sample_env (key_event TAB) sample_world)) =
     [Event_preventDefault, BlockSelection_clearSelection,
      Block_set_focused (sample_block ''list'') True, Toolbar_moveAndOpen None,
      BlockSettings_open]"
  using tabPressed_panels
      [where X = sample_env and ev = "key_event TAB"
         and w = "world_of (editor_of [(sample_block ''paragraph'')\<lparr>isEmpty := True\<rparr>] 0)"
         and cb = "(sample_block ''paragraph'')\<lparr>isEmpty := True\<rparr>"]
    tabPressed_panels
      [where X = sample_env and ev = "key_event TAB"
         and w = "world_of (sample_editor\<lparr>ConversionToolbar_opened := True\<rparr>)"
         and cb = "sample_block ''list''"]
    tabPressed_panels
      [where X = sample_env and ev = "key_event TAB" and w = sample_world
         and cb = "sample_block ''list''"]
  by (simp add: sample_defs)

section \<open>Backspace\<close>

text \<open>
  Claim C3. On a Backspace keydown whose current block is selected, or is empty with its
  current input being its first input, the handler prevents the default action and
  removes a block: the previous one (index minus one) when there is a previous block
  with no inputs named \<open>image\<close> or \<open>gallery\<close>, the current one (\<open>removeBlock()\<close>)
  otherwise. It then sets the caret to the block that is current after the removal, at
  \<open>END\<close> when the index read before the removal was not zero and at \<open>START\<close> when it
  was zero, closes the toolbar and clears the block selection.
\<close>

theorem backspace_removes_block:
  assumes "keyCode ev = BACKSPACE"
    and "BlockManager_currentBlock (ed (beforeKeydownProcessing X ev w)) = Some cb"
    and "selected cb \<or> (isEmpty cb \<and> currentInput cb = firstInput cb)"
  shows "keydown X ev w =
     (let w1 = invoke X Event_preventDefault (beforeKeydownProcessing X ev w);
          index = BlockManager_currentBlockIndex (ed w1);
          removed =
            (case BlockManager_previousBlock (ed w1) of
               None \<Rightarrow> None
             | Some p \<Rightarrow>
                 if inputs p = [] \<and> (name p = ''image'' \<or> name p = ''gallery'')
                 then Some (index - 1) else None);
          w2 = invoke X (BlockManager_removeBlock removed) w1
      in (Returned,
          invokes X
            [Caret_setToBlock (BlockManager_currentBlock (ed w2))
               (Some (if index = 0 then START else END)),
             Toolbar_close, BlockSelection_clearSelection] w2))"
  using assms
  by (auto simp add: keydown_def backspace_def Let_def split: option.splits)

theorem backspace_removes_block_witness:
  "trace (snd (keydown sample_env (key_event BACKSPACE)
      (world_of (editor_of [sample_block ''paragraph'',
                            (sample_block ''list'')\<lparr>selected := True\<rparr>] 1)))) =
     [Event_preventDefault, BlockManager_removeBlock None,
      Caret_setToBlock (Some ((sample_block ''list'')\<lparr>selected := True\<rparr>)) (Some END),
      Toolbar_close, BlockSelection_clearSelection]
   \<and> trace (snd (keydown sample_env (key_event BACKSPACE)
      (world_of (editor_of [(sample_block ''paragraph'')\<lparr>isEmpty := True\<rparr>] 0)))) =
     [Event_preventDefault, BlockManager_removeBlock None,
      Caret_setToBlock (Some ((sample_block ''paragraph'')\<lparr>isEmpty := True\<rparr>)) (Some START),
      Toolbar_close, BlockSelection_clearSelection]
   \<and> trace (snd (keydown sample_env (key_event BACKSPACE)
      (world_of (editor_of [(sample_block ''image'')\<lparr>inputs := []\<rparr>,
                            (sample_block ''paragraph'')\<lparr>isEmpty := True\<rparr>] 1)))) =
     [Event_preventDefault, BlockManager_removeBlock (Some 0),
      Caret_setToBlock (Some ((sample_block ''paragraph'')\<lparr>isEmpty := True\<rparr>)) (Some END),
      Toolbar_close, BlockSelection_clearSelection]"
  using backspace_removes_block
      [where X = sample_env and ev = "key_event BACKSPACE"
         and w = "world_of (editor_of [sample_block ''paragraph'',
                                       (sample_block ''list'')\<lparr>selected := True\<rparr>] 1)"
         and cb = "(sample_block ''list'')\<lparr>selected := True\<rparr>"]
    backspace_removes_block
      [where X = sample_env and ev = "key_event BACKSPACE"
         and w = "world_of (editor_of [(sample_block ''paragraph'')\<lparr>isEmpty := True\<rparr>] 0)"
         and cb = "(sample_block ''paragraph'')\<lparr>isEmpty := True\<rparr>"]
    backspace_removes_block
      [where X = sample_env and ev = "key_event BACKSPACE"
         and w = "world_of (editor_of [(sample_block ''image'')\<lparr>inputs := []\<rparr>,
                                       (sample_block ''paragraph'')\<lparr>isEmpty := True\<rparr>] 1)"
         and cb = "(sample_block ''paragraph'')\<lparr>isEmpty := True\<rparr>"]
  by (simp add: sample_defs)

text \<open>
  Claim C4. On a Backspace keydown that reaches the merge (block neither selected nor
  empty, caret at start, selection collapsed, current input the first input, index not
  zero) the handler prevents the default action and then, with \<open>bm\<close> the current and
  \<open>tb\<close> the previous block:
  \<^item> if both have the same name and \<open>tb\<close> is mergeable, it creates the caret shadow and
    calls \<open>BlockManager.mergeBlocks\<close>; once that promise is fulfilled it restores the
    caret, normalises the content node and closes the toolbar;
  \<^item> otherwise, if \<open>tb\<close> has no inputs or is empty, it removes the block at index minus
    one, sets the caret to the current block and closes the toolbar;
  \<^item> otherwise it calls \<open>Caret.navigatePrevious\<close>, and closes the toolbar when that
    navigated.
  The merge call is made in the first case only.
\<close>

theorem backspace_merges:
  assumes "keyCode ev = BACKSPACE"
    and "BlockManager_currentBlock (ed (beforeKeydownProcessing X ev w)) = Some cb"
    and "\<not> selected cb" and "\<not> isEmpty cb"
    and "Caret_isAtStart (ed (beforeKeydownProcessing X ev w))"
    and "SelectionUtils_isCollapsed (ed (beforeKeydownProcessing X ev w))"
    and "currentInput cb = firstInput cb"
    and "BlockManager_currentBlockIndex (ed (beforeKeydownProcessing X ev w)) \<noteq> 0"
    and "BlockManager_currentBlock
           (ed (invoke X Event_preventDefault (beforeKeydownProcessing X ev w))) = Some bm"
    and "BlockManager_previousBlock
           (ed (invoke X Event_preventDefault (beforeKeydownProcessing X ev w))) = Some tb"
  shows "keydown X ev w =
     (let w1 = invoke X Event_preventDefault (beforeKeydownProcessing X ev w)
      in if name bm = name tb \<and> mergeable tb then
           (let shadow = Caret_createShadow (pluginsContent tb);
                mrg = BlockManager_mergeBlocks tb bm;
                fulfilled = the_bool (result X mrg (invoke X shadow w1))
            in (Returned,
                invokes X
                  ([shadow, mrg] @
                   (if fulfilled
                    then [Caret_restoreCaret (pluginsContent tb),
                          Node_normalize (pluginsContent tb), Toolbar_close]
                    else [])) w1))
         else if inputs tb = [] \<or> isEmpty tb then
           (let w2 = invoke X (BlockManager_removeBlock
                                 (Some (BlockManager_currentBlockIndex (ed w1) - 1))) w1
            in (Returned,
                invokes X [Caret_setToBlock (BlockManager_currentBlock (ed w2)) None,
                           Toolbar_close] w2))
         else
           (Returned,
            invokes X
              (Caret_navigatePrevious #
               (if the_bool (result X Caret_navigatePrevious w1) then [Toolbar_close] else []))
              w1))"
  using assms
  by (auto simp add: keydown_def backspace_def mergeBlocks_def Let_def)

theorem backspace_merges_witness:
  "trace (snd (keydown sample_env (key_event BACKSPACE)
      (world_of (editor_of [sample_block ''paragraph'', sample_block ''paragraph''] 1)))) =
     [Event_preventDefault, Caret_createShadow 7,
      BlockManager_mergeBlocks (sample_block ''paragraph'') (sample_block ''paragraph''),
      Caret_restoreCaret 7, Node_normalize 7, Toolbar_close]
   \<and> trace (snd (keydown sample_env (key_event BACKSPACE)
      (world_of (editor_of [(sample_block ''paragraph'')\<lparr>isEmpty := True\<rparr>,
                            sample_block ''list''] 1)))) =
     [Event_preventDefault, BlockManager_removeBlock (Some 0),
      Caret_setToBlock (Some (sample_block ''list'')) None, Toolbar_close]
   \<and> trace (snd (keydown sample_env (key_event BACKSPACE) sample_world)) =
     [Event_preventDefault, Caret_navigatePrevious, Toolbar_close]"
  using backspace_merges
      [where X = sample_env and ev = "key_event BACKSPACE"
         and w = "world_of (editor_of [sample_block ''paragraph'', sample_block ''paragraph''] 1)"
         and cb = "sample_block ''paragraph''" and bm = "sample_block ''paragraph''"
         and tb = "sample_block ''paragraph''"]
    backspace_merges
      [where X = sample_env and ev = "key_event BACKSPACE"
         and w = "world_of (editor_of [(sample_block ''paragraph'')\<lparr>isEmpty := True\<rparr>,
                                       sample_block ''list''] 1)"
         and cb = "sample_block ''list''" and bm = "sample_block ''list''"
         and tb = "(sample_block ''paragraph'')\<lparr>isEmpty := True\<rparr>"]
    backspace_merges
      [where X = sample_env and ev = "key_event BACKSPACE" and w = sample_world
         and cb = "sample_block ''list''" and bm = "sample_block ''list''"
         and tb = "sample_block ''paragraph''"]
  by (simp add: sample_defs)

section \<open>Enter\<close>

text \<open>
  Claim C2. On an Enter keydown that is handled (the tool does not enable line breaks,
  not both a toolbar open and a flipper button focused, shift not held) with the caret
  neither at the start nor at the end of the block, the handler calls
  \<open>BlockManager.split\<close> with the name of the block at the current index when that name
  is one of \<open>paragraph\<close>, \<open>list\<close>, \<open>header\<close>, \<open>header01\<close>, \<open>header02\<close>,
  \<open>header03\<close>, and with \<open>paragraph\<close> otherwise; it then sets the caret to the block
  the split returned, moves and opens the toolbar at it and prevents the default action.
\<close>

theorem enter_splits:
  assumes "keyCode ev = ENTER"
    and "BlockManager_currentBlock (ed (beforeKeydownProcessing X ev w)) = Some cb"
    and "\<not> isLineBreaksEnabled (tool cb)"
    and "\<not> (UI_someToolbarOpened (ed (beforeKeydownProcessing X ev w)) \<and>
            UI_someFlipperButtonFocused (ed (beforeKeydownProcessing X ev w)))"
    and "\<not> shiftKey ev"
    and "\<not> Caret_isAtStart (ed (beforeKeydownProcessing X ev w))"
    and "\<not> Caret_isAtEnd (ed (beforeKeydownProcessing X ev w))"
    and "js_index (BlockManager_blocks (ed (beforeKeydownProcessing X ev w)))
           (BlockManager_currentBlockIndex (ed (beforeKeydownProcessing X ev w))) = Some ob"
  shows "keydown X ev w =
     (let w0 = beforeKeydownProcessing X ev w;
          ty = (if name ob \<in> {''paragraph'', ''list'', ''header'', ''header01'', ''header02'',
                               ''header03''}
                then name ob else ''paragraph'');
          nb = the_block (result X (BlockManager_split ty) w0)
      in (Returned,
          invokes X [BlockManager_split ty, Caret_setToBlock nb None, Toolbar_moveAndOpen nb,
                     Event_preventDefault] w0))"
  using assms
  by (auto simp add: keydown_def enter_def DEFAULT_TYPE_ACCEPT_def Let_def)

theorem enter_splits_witness:
  "trace (snd (keydown sample_env (key_event ENTER)
      (world_of (sample_editor\<lparr>Caret_isAtStart := False\<rparr>)))) =
     [Toolbar_close, ConversionToolbar_close, BlockManager_clearFocused,
      BlockSelection_clearSelection,
      BlockManager_split ''list'', Caret_setToBlock (Some (sample_block ''list'')) None,
      Toolbar_moveAndOpen (Some (sample_block ''list'')), Event_preventDefault]
   \<and> trace (snd (keydown sample_env (key_event ENTER)
      (world_of ((editor_of [sample_block ''quote''] 0)\<lparr>Caret_isAtStart := False\<rparr>)))) =
     [Toolbar_close, ConversionToolbar_close, BlockManager_clearFocused,
      BlockSelection_clearSelection,
      BlockManager_split ''paragraph'', Caret_setToBlock (Some (sample_block ''paragraph'')) None,
      Toolbar_moveAndOpen (Some (sample_block ''paragraph'')), Event_preventDefault]"
  using enter_splits
      [where X = sample_env and ev = "key_event ENTER"
         and w = "world_of (sample_editor\<lparr>Caret_isAtStart := False\<rparr>)"
         and cb = "sample_block ''list''" and ob = "sample_block ''list''"]
    enter_splits
      [where X = sample_env and ev = "key_event ENTER"
         and w = "world_of ((editor_of [sample_block ''quote''] 0)\<lparr>Caret_isAtStart := False\<rparr>)"
         and cb = "sample_block ''quote''" and ob = "sample_block ''quote''"]
  by (simp add: sample_defs)

text \<open>
  Claim C1, as stated, fails at the start of a list block. In the sample world the
  current block is named \<open>list\<close>, has no media, the caret is at its start and the
  configured default block is \<open>paragraph\<close>: the Enter keydown is handled, and the block
  it inserts at the current index is created with the tool name \<open>paragraph\<close>, which is
  \<open>this.config.defaultBlock\<close>, not \<open>list\<close>.
\<close>

theorem enter_on_list_start_counterexample:
  "BlockManager_currentBlock (ed sample_world) = Some (sample_block ''list'')
   \<and> name (sample_block ''list'') = ''list''
   \<and> Caret_isAtStart (ed sample_world)
   \<and> config_defaultBlock sample_env = ''paragraph''
   \<and> fst (keydown sample_env (key_event ENTER) sample_world) = Returned
   \<and> trace (snd (keydown sample_env (key_event ENTER) sample_world)) =
       [Toolbar_close, ConversionToolbar_close, BlockManager_clearFocused,
        BlockSelection_clearSelection,
        BlockManager_insertDefaultBlockAtIndex 1 (Some False) (Some ''paragraph''),
        Caret_setToBlock (Some (sample_block ''paragraph'')) None,
        Toolbar_moveAndOpen (Some (sample_block ''paragraph'')), Event_preventDefault]"
  by (simp add: sample_defs keydown_def enter_def)

text \<open>
  Claim C1, amended. On a handled Enter keydown on a block named \<open>list\<close>:
  \<^item> with the caret at the start of the block and no media in it, the handler inserts
    at the current index a block created with the configured default type
    \<open>this.config.defaultBlock\<close>;
  \<^item> otherwise, with the caret at the end of the block, it inserts at the current index
    plus one a block created with the type \<open>list\<close>.
  In both cases the caret is set to the inserted block, the toolbar is moved and opened
  at it and the default action is prevented.
\<close>

theorem enter_on_list:
  assumes "keyCode ev = ENTER"
    and "BlockManager_currentBlock (ed (beforeKeydownProcessing X ev w)) = Some cb"
    and "\<not> isLineBreaksEnabled (tool cb)"
    and "\<not> (UI_someToolbarOpened (ed (beforeKeydownProcessing X ev w)) \<and>
            UI_someFlipperButtonFocused (ed (beforeKeydownProcessing X ev w)))"
    and "\<not> shiftKey ev"
    and "name cb = ''list''"
    and "Caret_isAtStart (ed (beforeKeydownProcessing X ev w)) \<and> \<not> hasMedia cb \<or>
         Caret_isAtEnd (ed (beforeKeydownProcessing X ev w))"
  shows "keydown X ev w =
     (let w0 = beforeKeydownProcessing X ev w;
          index = BlockManager_currentBlockIndex (ed w0);
          ins = (if Caret_isAtStart (ed w0) \<and> \<not> hasMedia cb
                 then BlockManager_insertDefaultBlockAtIndex
                        index (Some False) (Some (config_defaultBlock X))
                 else BlockManager_insertDefaultBlockAtIndex
                        (index + 1) (Some False) (Some ''list''));
          nb = the_block (result X ins w0)
      in (Returned,
          invokes X [ins, Caret_setToBlock nb None, Toolbar_moveAndOpen nb,
                     Event_preventDefault] w0))"
  using assms
  by (auto simp add: keydown_def enter_def Let_def)

theorem enter_on_list_witness:
  "trace (snd (keydown sample_env (key_event ENTER) sample_world)) =
     [Toolbar_close, ConversionToolbar_close, BlockManager_clearFocused,
      BlockSelection_clearSelection,
      BlockManager_insertDefaultBlockAtIndex 1 (Some False) (Some ''paragraph''),
      Caret_setToBlock (Some (sample_block ''paragraph'')) None,
      Toolbar_moveAndOpen (Some (sample_block ''paragraph'')), Event_preventDefault]
   \<and> trace (snd (keydown sample_env (key_event ENTER)
        (world_of (sample_editor\<lparr>Caret_isAtStart := False, Caret_isAtEnd := True\<rparr>)))) =
     [Toolbar_close, ConversionToolbar_close, BlockManager_clearFocused,
      BlockSelection_clearSelection,
      BlockManager_insertDefaultBlockAtIndex 2 (Some False) (Some ''list''),
      Caret_setToBlock (Some (sample_block ''list'')) None,
      Toolbar_moveAndOpen (Some (sample_block ''list'')), Event_preventDefault]"
  using enter_on_list
      [where X = sample_env and ev = "key_event ENTER" and w = sample_world
         and cb = "sample_block ''list''"]
    enter_on_list
      [where X = sample_env and ev = "key_event ENTER"
         and w = "world_of (sample_editor\<lparr>Caret_isAtStart := False, Caret_isAtEnd := True\<rparr>)"
         and cb = "sample_block ''list''"]
  by (simp add: sample_defs)

section \<open>Arrows and the reordering of image blocks\<close>

text \<open>
  Claim C8. On a keydown with shift and meta held whose current block is named
  \<open>image\<close>:
  \<^item> ArrowDown with no block at the next index throws \<open>Error\<close> and leaves the world
    as it was, no call having been made; with a next block the handler scrolls the
    window and calls \<open>BlocksAPI.move\<close> with the current index plus one, after which the
    right/down handler runs;
  \<^item> ArrowUp at index zero, or with no block at the previous index, throws \<open>Error\<close> and
    leaves the world as it was; otherwise the handler scrolls the window and calls
    \<open>BlocksAPI.move\<close> with the current index minus one, after which the left/up handler
    runs.
\<close>

theorem keydown_moves_image:
  assumes "shiftKey ev" and "metaKey ev"
    and "BlocksAPI_getBlockByIndex (ed w) (BlocksAPI_getCurrentBlockIndex (ed w)) = Some cb"
    and "name cb = ''image''"
  shows "(keyCode ev = DOWN \<longrightarrow>
            (let i = BlocksAPI_getCurrentBlockIndex (ed w)
             in case BlocksAPI_getBlockByIndex (ed w) (i + 1) of
                  None \<Rightarrow>
                    keydown X ev w =
                      (Threw (Error ''Unable to move Block down since it is already the last''), w)
                | Some nb \<Rightarrow>
                    keydown X ev w =
                      (Returned,
                       arrowRightAndDown X ev
                         (invokes X
                            [Window_scrollTo 0
                               (if rect_top (holder nb) < window_innerHeight (ed w)
                                then window_scrollY (ed w) + offsetHeight (holder nb)
                                else \<bar>window_innerHeight (ed w) - offsetHeight (holder nb)\<bar>),
                             BlocksAPI_move (i + 1)] w))))
       \<and> (keyCode ev = UP \<longrightarrow>
            (let i = BlocksAPI_getCurrentBlockIndex (ed w)
             in case (if i = 0 then None else BlocksAPI_getBlockByIndex (ed w) (i - 1)) of
                  None \<Rightarrow>
                    keydown X ev w =
                      (Threw (Error ''Unable to move Block up since it is already the first''), w)
                | Some pb \<Rightarrow>
                    keydown X ev w =
                      (Returned,
                       arrowLeftAndUp X ev
                         (invokes X
                            [Window_scrollBy 0
                               (- (if 0 < rect_top (holder pb)
                                   then \<bar>rect_top (holder cb)\<bar> - \<bar>rect_top (holder pb)\<bar>
                                   else \<bar>rect_top (holder cb)\<bar> + rect_height (holder pb))),
                             BlocksAPI_move (i - 1)] w))))"
  using assms
  by (auto simp add: keydown_def beforeKeydownProcessing_shift keydown_case_DOWN_def
      keydown_case_UP_def Let_def split: option.splits)

theorem keydown_moves_image_witness:
  "keydown sample_env (key_event DOWN\<lparr>shiftKey := True, metaKey := True\<rparr>)
     (world_of (editor_of [sample_block ''paragraph'', sample_block ''image''] 1)) =
     (Threw (Error ''Unable to move Block down since it is already the last''),
      world_of (editor_of [sample_block ''paragraph'', sample_block ''image''] 1))
   \<and> trace (snd (keydown sample_env (key_event DOWN\<lparr>shiftKey := True, metaKey := True\<rparr>)
        (world_of (editor_of [sample_block ''image'', sample_block ''paragraph''] 0)))) =
     [Window_scrollTo 0 50, BlocksAPI_move 1, BlockManager_clearFocused, Toolbar_close,
      Caret_navigateNext, Utils_delay_updateCurrentInput 20, BlockSelection_clearSelection]
   \<and> keydown sample_env (key_event UP\<lparr>shiftKey := True, metaKey := True\<rparr>)
     (world_of (editor_of [sample_block ''image'', sample_block ''paragraph''] 0)) =
     (Threw (Error ''Unable to move Block up since it is already the first''),
      world_of (editor_of [sample_block ''image'', sample_block ''paragraph''] 0))
   \<and> trace (snd (keydown sample_env (key_event UP\<lparr>shiftKey := True, metaKey := True\<rparr>)
        (world_of (editor_of [sample_block ''paragraph'', sample_block ''image''] 1)))) =
     [Window_scrollBy 0 0, BlocksAPI_move 0, BlockManager_clearFocused, Toolbar_close,
      CrossBlockSelection_toggleBlockSelectedState (Some False)]"
  using keydown_moves_image
      [where X = sample_env and ev = "key_event DOWN\<lparr>shiftKey := True, metaKey := True\<rparr>"
         and w = "world_of (editor_of [sample_block ''paragraph'', sample_block ''image''] 1)"
         and cb = "sample_block ''image''"]
    keydown_moves_image
      [where X = sample_env and ev = "key_event DOWN\<lparr>shiftKey := True, metaKey := True\<rparr>"
         and w = "world_of (editor_of [sample_block ''image'', sample_block ''paragraph''] 0)"
         and cb = "sample_block ''image''"]
    keydown_moves_image
      [where X = sample_env and ev = "key_event UP\<lparr>shiftKey := True, metaKey := True\<rparr>"
         and w = "world_of (editor_of [sample_block ''image'', sample_block ''paragraph''] 0)"
         and cb = "sample_block ''image''"]
    keydown_moves_image
      [where X = sample_env and ev = "key_event UP\<lparr>shiftKey := True, metaKey := True\<rparr>"
         and w = "world_of (editor_of [sample_block ''paragraph'', sample_block ''image''] 1)"
         and cb = "sample_block ''image''"]
  by (simp add: sample_defs arrowRightAndDown_def arrowLeftAndUp_def)

text \<open>
  Claim C9, as stated, fails in two ways. With shift and meta held on the first of two
  blocks, an image, and the caret at its end, ArrowDown reorders the blocks and the
  right/down handler runs: it clears the focus and closes the toolbar, but then toggles
  the cross-block selection and returns without clearing the block selection, although
  no toolbar is open and so no flipper takes the key. And on an image block that is the
  last one the DOWN case throws, so the right/down handler does not run at all.
\<close>

theorem arrow_down_fall_through_counterexample:
  "keyCode (key_event DOWN\<lparr>shiftKey := True, metaKey := True\<rparr>) = DOWN
   \<and> fst (keydown sample_env (key_event DOWN\<lparr>shiftKey := True, metaKey := True\<rparr>)
        (world_of ((editor_of [sample_block ''image'', sample_block ''paragraph''] 0)
                     \<lparr>Caret_isAtEnd := True\<rparr>))) = Returned
   \<and> trace (snd (keydown sample_env (key_event DOWN\<lparr>shiftKey := True, metaKey := True\<rparr>)
        (world_of ((editor_of [sample_block ''image'', sample_block ''paragraph''] 0)
                     \<lparr>Caret_isAtEnd := True\<rparr>)))) =
       [Window_scrollTo 0 50, BlocksAPI_move 1, BlockManager_clearFocused, Toolbar_close,
        CrossBlockSelection_toggleBlockSelectedState None]
   \<and> keydown sample_env (key_event DOWN\<lparr>shiftKey := True, metaKey := True\<rparr>)
        (world_of (editor_of [sample_block ''paragraph'', sample_block ''image''] 1)) =
       (Threw (Error ''Unable to move Block down since it is already the last''),
        world_of (editor_of [sample_block ''paragraph'', sample_block ''image''] 1))"
  by (simp add: sample_defs keydown_def keydown_case_DOWN_def arrowRightAndDown_def)

text \<open>
  Claim C9, amended. On an ArrowDown keydown the DOWN case of the switch has no
  \<open>break\<close>: unless it throws, the right/down handler runs on the world it leaves.
  On ArrowDown that handler returns at once when a toolbar is open and the key is a
  flipper key pressed without shift; otherwise it clears the block focus and closes the
  toolbar, and then either toggles the cross-block selection (shift held, and the caret
  at the end of the block or some block selected) and returns without clearing the
  selection, or calls \<open>Caret.navigateNext\<close>, prevents the default action when that
  navigated and schedules the refresh of the current input otherwise, and clears the
  block selection. ArrowUp is symmetric: the UP case falls through into the left/up
  handler, which in addition closes all toolbars first when one is open, tests the caret
  at the start of the block, toggles with the argument \<open>false\<close> and navigates to the
  previous position.
\<close>

theorem arrow_fall_through:
  "(keyCode ev = DOWN \<longrightarrow>
      keydown X ev w =
        (case keydown_case_DOWN X ev (beforeKeydownProcessing X ev w) of
           (Threw e, w1) \<Rightarrow> (Threw e, w1)
         | (Returned, w1) \<Rightarrow> (Returned, arrowRightAndDown X ev w1))
      \<and> arrowRightAndDown X ev v =
        (if UI_someToolbarOpened (ed v) \<and> DOWN \<in> set (Flipper_usedKeys X) \<and> \<not> shiftKey ev
         then v
         else
           (let w2 = invokes X [BlockManager_clearFocused, Toolbar_close] v
            in if shiftKey ev \<and>
                  (Caret_isAtEnd (ed w2) \<or> BlockSelection_anyBlockSelected (ed w2))
               then invoke X (CrossBlockSelection_toggleBlockSelectedState None) w2
               else invokes X
                      [Caret_navigateNext,
                       if the_bool (result X Caret_navigateNext w2) then Event_preventDefault
                       else Utils_delay_updateCurrentInput 20,
                       BlockSelection_clearSelection] w2)))
   \<and> (keyCode ev = UP \<longrightarrow>
      keydown X ev w =
        (case keydown_case_UP X ev (beforeKeydownProcessing X ev w) of
           (Threw e, w1) \<Rightarrow> (Threw e, w1)
         | (Returned, w1) \<Rightarrow> (Returned, arrowLeftAndUp X ev w1))
      \<and> arrowLeftAndUp X ev v =
        (if UI_someToolbarOpened (ed v) \<and> UP \<in> set (Flipper_usedKeys X) \<and> \<not> shiftKey ev
         then v
         else
           (let w2 = invokes X
                       ((if UI_someToolbarOpened (ed v) then [UI_closeAllToolbars] else []) @
                        [BlockManager_clearFocused, Toolbar_close]) v
            in if shiftKey ev \<and>
                  (Caret_isAtStart (ed w2) \<or> BlockSelection_anyBlockSelected (ed w2))
               then invoke X (CrossBlockSelection_toggleBlockSelectedState (Some False)) w2
               else invokes X
                      [Caret_navigatePrevious,
                       if the_bool (result X Caret_navigatePrevious w2) then Event_preventDefault
                       else Utils_delay_updateCurrentInput 20,
                       BlockSelection_clearSelection] w2)))"
  by (auto simp add: keydown_def arrowRightAndDown_def arrowLeftAndUp_def Let_def)

theorem arrow_fall_through_witness:
  "trace (snd (keydown sample_env (key_event DOWN) sample_world)) =
     [BlockManager_clearFocused, Toolbar_close, Caret_navigateNext,
      Utils_delay_updateCurrentInput 20, BlockSelection_clearSelection]
   \<and> trace (snd (keydown sample_env (key_event UP) sample_world)) =
     [BlockManager_clearFocused, Toolbar_close, Caret_navigatePrevious,
      Event_preventDefault, BlockSelection_clearSelection]
   \<and> keydown sample_env (key_event DOWN) (world_of (sample_editor\<lparr>UI_someToolbarOpened := True\<rparr>)) =
     (Returned, world_of (sample_editor\<lparr>UI_someToolbarOpened := True\<rparr>))"
  using arrow_fall_through
      [where X = sample_env and ev = "key_event DOWN" and w = sample_world
         and v = "snd (keydown_case_DOWN sample_env (key_event DOWN)
                         (beforeKeydownProcessing sample_env (key_event DOWN) sample_world))"]
    arrow_fall_through
      [where X = sample_env and ev = "key_event UP" and w = sample_world
         and v = "snd (keydown_case_UP sample_env (key_event UP)
                         (beforeKeydownProcessing sample_env (key_event UP) sample_world))"]
    arrow_fall_through
      [where X = sample_env and ev = "key_event DOWN"
         and w = "world_of (sample_editor\<lparr>UI_someToolbarOpened := True\<rparr>)"
         and v = "world_of (sample_editor\<lparr>UI_someToolbarOpened := True\<rparr>)"]
  by (simp add: sample_defs keydown_case_DOWN_def keydown_case_UP_def)

end
